theory Spec2Isabelle
  imports Complex_Main "HOL-Library.Char_ord" "HOL-Library.List_Lexorder"
    "HOL-Library.Multiset"
begin

section \<open>Python strings\<close>

text \<open>
  A Python \<open>str\<close> is modelled as a HOL \<open>string\<close>; a \<open>char\<close> stands for a code point
  below 256. The log files are plain ASCII tables, so nothing above that range is needed.
\<close>

definition TAB :: char where
  "TAB = CHR 0x09"

definition LF :: char where
  "LF = CHR 0x0A"

definition CR :: char where
  "CR = CHR 0x0D"

text \<open>
  \<open>str.isspace\<close> on the code points below 256: the characters that \<open>str.strip()\<close>
  removes from both ends.
\<close>

definition is_space :: "char \<Rightarrow> bool" where
  "is_space c = (c \<in> set [CHR 0x09, CHR 0x0A, CHR 0x0B, CHR 0x0C, CHR 0x0D,
                          CHR 0x1C, CHR 0x1D, CHR 0x1E, CHR 0x1F, CHR 0x20,
                          CHR 0x85, CHR 0xA0])"

text \<open>\<open>s.strip()\<close>\<close>

definition strip :: "string \<Rightarrow> string" where
  "strip s = rev (dropWhile is_space (rev (dropWhile is_space s)))"

text \<open>\<open>s.startswith(p)\<close>\<close>

definition startswith :: "string \<Rightarrow> string \<Rightarrow> bool" where
  "startswith s p = (take (length p) s = p)"

text \<open>
  \<open>s.split(sep)\<close> for a one-character separator: the pieces between the separators,
  empty pieces kept, so the result always has one element more than there are separators.
\<close>

fun split_acc :: "char \<Rightarrow> string \<Rightarrow> string \<Rightarrow> string list" where
  "split_acc sep cur [] = [cur]"
| "split_acc sep cur (c # cs) =
     (if c = sep then cur # split_acc sep [] cs else split_acc sep (cur @ [c]) cs)"

definition split :: "string \<Rightarrow> char \<Rightarrow> string list" where
  "split s sep = split_acc sep [] s"

section \<open>Reading a text file\<close>

text \<open>
  \<open>open(filepath, 'r')\<close> reads with universal newlines: \<open>\r\n\<close> and a lone \<open>\r\<close>
  arrive as \<open>\n\<close>. \<open>f.readlines()\<close> cuts the text after every \<open>\n\<close> and keeps the
  terminator on each line; a last line without terminator is kept as it is.
\<close>

fun universal_newlines :: "string \<Rightarrow> string" where
  "universal_newlines [] = []"
| "universal_newlines [c] = [if c = CR then LF else c]"
| "universal_newlines (c # d # cs) =
     (if c = CR \<and> d = LF then LF # universal_newlines cs
      else if c = CR then LF # universal_newlines (d # cs)
      else c # universal_newlines (d # cs))"

fun lines_acc :: "string \<Rightarrow> string \<Rightarrow> string list" where
  "lines_acc cur [] = (if cur = [] then [] else [cur])"
| "lines_acc cur (c # cs) =
     (if c = LF then (cur @ [c]) # lines_acc [] cs else lines_acc (cur @ [c]) cs)"

definition readlines :: "string \<Rightarrow> string list" where
  "readlines content = lines_acc [] (universal_newlines content)"

section \<open>The built-in \<open>float\<close>\<close>

text \<open>
  A Python float is a finite number, one of the two infinities, or a NaN. Finite values
  are kept as the exact value of the decimal literal: rounding to binary64 is left out,
  and so is the overflow of a huge literal such as \<open>1e999\<close> to infinity.
\<close>

datatype pyfloat = Finite real | PInf | NInf | NaN

fun isfinite :: "pyfloat \<Rightarrow> bool" where
  "isfinite (Finite r) = True"
| "isfinite PInf = False"
| "isfinite NInf = False"
| "isfinite NaN = False"

definition is_digit :: "char \<Rightarrow> bool" where
  "is_digit c = (c \<in> set ''0123456789'')"

definition digit_val :: "char \<Rightarrow> int" where
  "digit_val c = (case map_of (zip ''0123456789'' [0, 1, 2, 3, 4, 5, 6, 7, 8, 9]) c of
                    Some d \<Rightarrow> d | None \<Rightarrow> 0)"

definition int_of_digits :: "string \<Rightarrow> int" where
  "int_of_digits ds = foldl (\<lambda>a c. 10 * a + digit_val c) 0 ds"

definition ascii_lower :: "char \<Rightarrow> char" where
  "ascii_lower c =
     (case map_of (zip ''ABCDEFGHIJKLMNOPQRSTUVWXYZ'' ''abcdefghijklmnopqrstuvwxyz'') c of
        Some l \<Rightarrow> l | None \<Rightarrow> c)"

text \<open>
  An underscore may only stand between two digits; \<open>float\<close> checks this on the whole
  argument before it removes the underscores. \<open>prev\<close> is the character before the
  current one.
\<close>

fun underscores_ok :: "char option \<Rightarrow> string \<Rightarrow> bool" where
  "underscores_ok prev [] = (prev \<noteq> Some (CHR ''_''))"
| "underscores_ok prev (c # cs) =
     (if c = CHR ''_'' then
        (case prev of Some p \<Rightarrow> is_digit p \<and> underscores_ok (Some c) cs | None \<Rightarrow> False)
      else if prev = Some (CHR ''_'') \<and> \<not> is_digit c then False
      else underscores_ok (Some c) cs)"

text \<open>
  The whitespace \<open>float\<close> strips from both ends: the C locale's \<open>isspace\<close>, and the two
  non-ASCII spaces below 256, which are turned into blanks first. The separators
  \<open>0x1C\<close> to \<open>0x1F\<close> are not among them.
\<close>

definition is_float_space :: "char \<Rightarrow> bool" where
  "is_float_space c = (c \<in> set [CHR 0x09, CHR 0x0A, CHR 0x0B, CHR 0x0C, CHR 0x0D, CHR 0x20,
                                CHR 0x85, CHR 0xA0])"

definition float_strip :: "string \<Rightarrow> string" where
  "float_strip s = rev (dropWhile is_float_space (rev (dropWhile is_float_space s)))"

text \<open>An optional sign: whether it is a minus, and the rest.\<close>

fun take_sign :: "string \<Rightarrow> bool \<times> string" where
  "take_sign [] = (False, [])"
| "take_sign (c # cs) =
     (if c = CHR ''-'' then (True, cs)
      else if c = CHR ''+'' then (False, cs)
      else (False, c # cs))"

definition scale10 :: "int \<Rightarrow> real" where
  "scale10 k = (if 0 \<le> k then 10 ^ nat k else 1 / 10 ^ nat (- k))"

text \<open>
  The exponent part, after the digits of the number: nothing (exponent 0), or \<open>e\<close> or
  \<open>E\<close>, an optional sign and at least one digit, up to the end of the text.
\<close>

fun exponent :: "string \<Rightarrow> int option" where
  "exponent [] = Some 0"
| "exponent (c # cs) =
     (if c = CHR ''e'' \<or> c = CHR ''E'' then
        (case take_sign cs of
           (neg, ds) \<Rightarrow>
             if ds \<noteq> [] \<and> list_all is_digit ds
             then Some (if neg then - int_of_digits ds else int_of_digits ds)
             else None)
      else None)"

text \<open>
  An unsigned decimal number: digits, an optional point and more digits (one digit at
  least in all), then the exponent part.
\<close>

definition decimal :: "string \<Rightarrow> real option" where
  "decimal s =
     (let ip = takeWhile is_digit s;
          r1 = dropWhile is_digit s;
          fp = (case r1 of [] \<Rightarrow> [] | c # r \<Rightarrow> if c = CHR ''.'' then takeWhile is_digit r else []);
          r2 = (case r1 of [] \<Rightarrow> [] | c # r \<Rightarrow> if c = CHR ''.'' then dropWhile is_digit r else r1)
      in if ip @ fp = [] then None
         else (case exponent r2 of
                 None \<Rightarrow> None
               | Some e \<Rightarrow> Some (real_of_int (int_of_digits (ip @ fp)) * scale10 (e - int (length fp)))))"

text \<open>\<open>float(s)\<close> for a string \<open>s\<close>; \<open>None\<close> where Python raises \<open>ValueError\<close>.\<close>

definition py_float :: "string \<Rightarrow> pyfloat option" where
  "py_float s =
     (if \<not> underscores_ok None s then None
      else (case take_sign (float_strip (filter (\<lambda>c. c \<noteq> CHR ''_'') s)) of
              (neg, body) \<Rightarrow>
                if map ascii_lower body = ''inf'' \<or> map ascii_lower body = ''infinity''
                then Some (if neg then NInf else PInf)
                else if map ascii_lower body = ''nan'' then Some NaN
                else (case decimal body of
                        None \<Rightarrow> None
                      | Some v \<Rightarrow> Some (Finite (if neg then - v else v)))))"

section \<open>\<open>parse_navigation_log\<close>\<close>

record sample =
  xte :: pyfloat
  lat :: pyfloat
  lon :: pyfloat

text \<open>\<open>ValueError\<close> carries the text that \<open>float\<close> could not convert.\<close>

datatype error = ValueError string

definition float_of :: "string \<Rightarrow> error + pyfloat" where
  "float_of s = (case py_float s of None \<Rightarrow> Inl (ValueError s) | Some v \<Rightarrow> Inr v)"

text \<open>
  The loop of \<open>parse_navigation_log\<close> in \<open>histogramAnalysis.py\<close> over the remaining
  lines, with the flag \<open>data_start\<close> and the list \<open>data\<close> built so far. The flag is set
  before the line is looked at, so the line that sets it is handled in the same pass.
\<close>

fun parse_loop :: "string list \<Rightarrow> bool \<Rightarrow> sample list \<Rightarrow> error + sample list" where
  "parse_loop [] data_start data = Inr data"
| "parse_loop (line # rest) data_start data =
     (let data_start = (if startswith line ''2025-'' then True else data_start) in
      if data_start \<and> strip line \<noteq> [] then
        (let parts = split line TAB in
         if length parts \<ge> 4 then
           (case float_of (parts ! 1) of
              Inl e \<Rightarrow> Inl e
            | Inr x \<Rightarrow>
                (case float_of (parts ! 2) of
                   Inl e \<Rightarrow> Inl e
                 | Inr la \<Rightarrow>
                     (case float_of (parts ! 3) of
                        Inl e \<Rightarrow> Inl e
                      | Inr lo \<Rightarrow>
                          parse_loop rest data_start
                            (data @ [\<lparr>xte = x, lat = la, lon = lo\<rparr>]))))
         else parse_loop rest data_start data)
      else parse_loop rest data_start data)"

definition parse_navigation_log :: "string \<Rightarrow> error + sample list" where
  "parse_navigation_log content = parse_loop (readlines content) False []"

text \<open>
  The function of the same name in \<open>lineCreator.py\<close>, translated on its own from
  that file.
\<close>

fun lc_parse_loop :: "string list \<Rightarrow> bool \<Rightarrow> sample list \<Rightarrow> error + sample list" where
  "lc_parse_loop [] data_start data = Inr data"
| "lc_parse_loop (line # rest) data_start data =
     (let data_start = (if startswith line ''2025-'' then True else data_start) in
      if data_start \<and> strip line \<noteq> [] then
        (let parts = split line TAB in
         if length parts \<ge> 4 then
           (case float_of (parts ! 1) of
              Inl e \<Rightarrow> Inl e
            | Inr x \<Rightarrow>
                (case float_of (parts ! 2) of
                   Inl e \<Rightarrow> Inl e
                 | Inr la \<Rightarrow>
                     (case float_of (parts ! 3) of
                        Inl e \<Rightarrow> Inl e
                      | Inr lo \<Rightarrow>
                          lc_parse_loop rest data_start
                            (data @ [\<lparr>xte = x, lat = la, lon = lo\<rparr>]))))
         else lc_parse_loop rest data_start data)
      else lc_parse_loop rest data_start data)"

definition lc_parse_navigation_log :: "string \<Rightarrow> error + sample list" where
  "lc_parse_navigation_log content = lc_parse_loop (readlines content) False []"

section \<open>The words of the specification about a log file\<close>

text \<open>
  The data section of a file: its lines from the first one that begins with \<open>2025-\<close>
  on, that line included. A file without such a line has an empty data section.
\<close>

definition data_section :: "string list \<Rightarrow> string list" where
  "data_section ls = dropWhile (\<lambda>l. \<not> startswith l ''2025-'') ls"

text \<open>A row: a line that is not blank and has at least four tab-separated fields.\<close>

definition is_row :: "string \<Rightarrow> bool" where
  "is_row l = (strip l \<noteq> [] \<and> 4 \<le> length (split l TAB))"

text \<open>The sample of a row: fields 1, 2 and 3 converted in this order.\<close>

definition row_sample :: "string \<Rightarrow> error + sample" where
  "row_sample l =
     (case float_of (split l TAB ! 1) of
        Inl e \<Rightarrow> Inl e
      | Inr x \<Rightarrow>
          (case float_of (split l TAB ! 2) of
             Inl e \<Rightarrow> Inl e
           | Inr la \<Rightarrow>
               (case float_of (split l TAB ! 3) of
                  Inl e \<Rightarrow> Inl e
                | Inr lo \<Rightarrow> Inr \<lparr>xte = x, lat = la, lon = lo\<rparr>)))"

text \<open>
  The samples of the rows among some lines, in order; the error of the first row that
  does not convert.
\<close>

fun parse_rows :: "string list \<Rightarrow> error + sample list" where
  "parse_rows [] = Inr []"
| "parse_rows (l # ls) =
     (if is_row l then
        (case row_sample l of
           Inl e \<Rightarrow> Inl e
         | Inr s \<Rightarrow> (case parse_rows ls of Inl e \<Rightarrow> Inl e | Inr ss \<Rightarrow> Inr (s # ss)))
      else parse_rows ls)"

text \<open>
  A well-formed file: in every line of the data section that has at least four fields,
  fields 1, 2 and 3 convert.
\<close>

definition well_formed :: "string \<Rightarrow> bool" where
  "well_formed content =
     list_all (\<lambda>l. 4 \<le> length (split l TAB) \<longrightarrow>
                  py_float (split l TAB ! 1) \<noteq> None \<and>
                  py_float (split l TAB ! 2) \<noteq> None \<and>
                  py_float (split l TAB ! 3) \<noteq> None)
       (data_section (readlines content))"

section \<open>The two tools\<close>

text \<open>
  The directory of the script is a list of its files, each a name and its text; the names
  are those of one directory, so no name occurs twice. \<open>glob('NavigationLog_*.txt')\<close>
  keeps the names that begin with \<open>NavigationLog_\<close> and end with \<open>.txt\<close>, the two
  parts not overlapping; \<open>sorted\<close> orders the paths of one directory by their names,
  character by character.
\<close>

type_synonym directory = "(string \<times> string) list"

definition endswith :: "string \<Rightarrow> string \<Rightarrow> bool" where
  "endswith s p = (length p \<le> length s \<and> drop (length s - length p) s = p)"

definition glob_match :: "string \<Rightarrow> bool" where
  "glob_match n =
     (startswith n ''NavigationLog_'' \<and> endswith n ''.txt'' \<and>
      length ''NavigationLog_'' + length ''.txt'' \<le> length n)"

definition glob :: "directory \<Rightarrow> directory" where
  "glob dir = filter (\<lambda>f. glob_match (fst f)) dir"

definition sorted_paths :: "directory \<Rightarrow> directory" where
  "sorted_paths fs = sort_key fst fs"

text \<open>
  \<open>Path.stem\<close>: the name up to its last dot, when that dot is neither the first nor
  the last character.
\<close>

definition rfind :: "string \<Rightarrow> char \<Rightarrow> nat option" where
  "rfind s c =
     (if c \<in> set s then Some (length s - 1 - length (takeWhile (\<lambda>x. x \<noteq> c) (rev s)))
      else None)"

definition stem :: "string \<Rightarrow> string" where
  "stem n =
     (case rfind n (CHR ''.'') of
        None \<Rightarrow> n
      | Some i \<Rightarrow> if 0 < i \<and> i < length n - 1 then take i n else n)"

text \<open>\<open>str(n)\<close> for a natural number, as the f-strings print a length.\<close>

function str_nat :: "nat \<Rightarrow> string" where
  "str_nat n =
     (if n < 10 then [''0123456789'' ! n]
      else str_nat (n div 10) @ [''0123456789'' ! (n mod 10)])"
  by pat_completeness auto
termination
  by (relation "measure (\<lambda>n. n)") auto

record run =
  name :: string
  data :: "sample list"

text \<open>
  What a tool does to the outside, in order. Drawing is not modelled: the two plot
  effects say which runs a figure is drawn from, and for the histogram the file it is
  saved to. \<open>Statistics\<close> stands for the five lines that report mean, mean of absolute
  values, standard deviation, maximum of absolute values and 95th percentile of absolute
  values of the given numbers. The output directory is taken to be creatable.
\<close>

datatype effect =
    Mkdir string
  | Print string
  | PlotCombinedHistogram "run list" string
  | PlotCombinedNavigation "run list"
  | Unlink string
  | Savefig string
  | PrintFileSize string
  | Statistics "pyfloat list"

text \<open>
  The loop of \<open>main\<close> in \<open>histogramAnalysis.py\<close> over the log files, with the effects so
  far and \<open>all_runs_data\<close>. An exception of the parser is not caught: it ends the loop
  and the tool.
\<close>

fun load_runs :: "directory \<Rightarrow> effect list \<Rightarrow> run list \<Rightarrow> effect list \<times> (error + run list)" where
  "load_runs [] tr all_runs_data = (tr, Inr all_runs_data)"
| "load_runs (log_file # rest) tr all_runs_data =
     (let tr = tr @ [Print (''Loading: '' @ fst log_file)] in
      case parse_navigation_log (snd log_file) of
        Inl e \<Rightarrow> (tr, Inl e)
      | Inr d \<Rightarrow>
          if length d < 2 then
            load_runs rest (tr @ [Print (''  Insufficient data in '' @ fst log_file)])
              all_runs_data
          else
            load_runs rest tr (all_runs_data @ [\<lparr>name = stem (fst log_file), data = d\<rparr>]))"

definition hist_main :: "directory \<Rightarrow> effect list \<times> error option" where
  "hist_main base_dir =
     (let tr = [Mkdir ''histogram_analysis''];
          log_files = sorted_paths (glob base_dir)
      in if log_files = [] then (tr @ [Print ''No navigation log files found!''], None)
         else
           (case load_runs log_files
                   (tr @ [Print (''Found '' @ str_nat (length log_files) @
                                 '' navigation log files'')]) [] of
              (tr, Inl e) \<Rightarrow> (tr, Some e)
            | (tr, Inr all_runs_data) \<Rightarrow>
                if all_runs_data \<noteq> [] then
                  (let histogram_file = ''histogram_analysis/Combined_XTE_Histogram.png'';
                       all_xtes = concat (map (\<lambda>r. map xte (data r)) all_runs_data)
                   in (tr @
                       [Print (LF # ''Generating combined histogram...''),
                        PlotCombinedHistogram all_runs_data histogram_file,
                        Print (''Saved combined histogram: '' @ histogram_file),
                        Print (LF # replicate 60 (CHR ''='')),
                        Print ''COMBINED STATISTICS (All Runs)'',
                        Print (replicate 60 (CHR ''='')),
                        Print (''Total data points: '' @ str_nat (length all_xtes)),
                        Statistics all_xtes,
                        Print (replicate 60 (CHR ''='')),
                        Print (LF # ''Histogram saved to: histogram_analysis/'')], None))
                else (tr @ [Print ''No valid data found for histogram generation.''], None)))"

text \<open>The loop and \<open>main\<close> of \<open>lineCreator.py\<close>.\<close>

fun lc_load_runs :: "directory \<Rightarrow> effect list \<Rightarrow> run list \<Rightarrow> effect list \<times> (error + run list)" where
  "lc_load_runs [] tr all_runs_data = (tr, Inr all_runs_data)"
| "lc_load_runs (log_file # rest) tr all_runs_data =
     (let tr = tr @ [Print (''Loading: '' @ fst log_file)] in
      case lc_parse_navigation_log (snd log_file) of
        Inl e \<Rightarrow> (tr, Inl e)
      | Inr d \<Rightarrow>
          if length d < 2 then
            lc_load_runs rest (tr @ [Print (''  Insufficient data in '' @ fst log_file)])
              all_runs_data
          else
            lc_load_runs rest tr (all_runs_data @ [\<lparr>name = stem (fst log_file), data = d\<rparr>]))"

text \<open>\<open>old_plot\<close> says whether \<open>line_plots/Combined_All_Runs.png\<close> exists already.\<close>

definition lc_main :: "directory \<Rightarrow> bool \<Rightarrow> effect list \<times> error option" where
  "lc_main base_dir old_plot =
     (let tr = [Mkdir ''line_plots''];
          log_files = sorted_paths (glob base_dir)
      in if log_files = [] then (tr @ [Print ''No navigation log files found!''], None)
         else
           (case lc_load_runs log_files
                   (tr @ [Print (''Found '' @ str_nat (length log_files) @
                                 '' navigation log files'')]) [] of
              (tr, Inl e) \<Rightarrow> (tr, Some e)
            | (tr, Inr all_runs_data) \<Rightarrow>
                if all_runs_data \<noteq> [] then
                  (let output_file = ''line_plots/Combined_All_Runs.png''
                   in (tr @
                       [Print (LF # ''Generating combined plot...''),
                        PlotCombinedNavigation all_runs_data] @
                       (if old_plot then [Unlink output_file, Print ''Deleted old plot file'']
                        else []) @
                       [Savefig output_file,
                        Print (''Saved combined plot: '' @ output_file),
                        PrintFileSize output_file,
                        Print (LF # ''Combined plot saved to: line_plots/'')], None))
                else (tr @ [Print ''No valid data found for plotting.''], None)))"

section \<open>The words of the specification about a batch\<close>

text \<open>
  The samples of a log file that parses, its run, whether the run has the two samples it
  needs, and the lines the loop prints for the file.
\<close>

definition parsed :: "string \<Rightarrow> sample list" where
  "parsed content = (case parse_navigation_log content of Inl e \<Rightarrow> [] | Inr d \<Rightarrow> d)"

definition run_of :: "string \<times> string \<Rightarrow> run" where
  "run_of f = \<lparr>name = stem (fst f), data = parsed (snd f)\<rparr>"

definition usable :: "string \<times> string \<Rightarrow> bool" where
  "usable f = (2 \<le> length (parsed (snd f)))"

definition progress :: "string \<times> string \<Rightarrow> effect list" where
  "progress f =
     Print (''Loading: '' @ fst f) #
     (if usable f then [] else [Print (''  Insufficient data in '' @ fst f)])"

section \<open>The statistics of the report\<close>

text \<open>
  The numpy functions the report calls, by their documented formulas, on finite values
  and in exact arithmetic: the rounding of binary64 is left out. \<open>None\<close> stands for the
  result on an empty array (an exception, or NaN with a warning), which \<open>main\<close> never
  passes: every run it keeps has two samples at least.
\<close>

definition np_abs :: "real list \<Rightarrow> real list" where
  "np_abs xs = map abs xs"

definition np_mean :: "real list \<Rightarrow> real option" where
  "np_mean xs = (if xs = [] then None else Some (sum_list xs / real (length xs)))"

text \<open>
  \<open>np.std(a, ddof)\<close>: the root of the sum of the squared distances from the mean,
  divided by \<open>max (N - ddof) 0\<close>. The default \<open>ddof\<close> is 0.
\<close>

definition np_std :: "real list \<Rightarrow> nat \<Rightarrow> real option" where
  "np_std xs ddof =
     (case np_mean xs of
        None \<Rightarrow> None
      | Some m \<Rightarrow>
          Some (sqrt (sum_list (map (\<lambda>x. \<bar>x - m\<bar> ^ 2) xs) /
                      real_of_int (max (int (length xs) - int ddof) 0))))"

definition np_max :: "real list \<Rightarrow> real option" where
  "np_max xs = (case xs of [] \<Rightarrow> None | x # r \<Rightarrow> Some (fold max r x))"

text \<open>
  \<open>np.percentile(a, q)\<close> with the default method \<open>linear\<close>: on the sorted values, the
  virtual index \<open>(N - 1) * q / 100\<close>, and between its two neighbours the point at the
  fractional part of the index.
\<close>

definition np_percentile :: "real list \<Rightarrow> real \<Rightarrow> real option" where
  "np_percentile xs q =
     (if xs = [] \<or> q < 0 \<or> 100 < q then None
      else
        (let arr = sort xs;
             virtual_index = real (length xs - 1) * (q / 100);
             previous = nat \<lfloor>virtual_index\<rfloor>;
             next = min (previous + 1) (length xs - 1);
             gamma = virtual_index - real previous
         in Some (arr ! previous + (arr ! next - arr ! previous) * gamma)))"

record statistics =
  total_points :: nat
  mean_xte :: real
  mean_abs_xte :: real
  std_dev :: real
  max_abs_xte :: real
  percentile95_abs_xte :: real

text \<open>The numbers of the block \<open>COMBINED STATISTICS\<close>, as \<open>main\<close> computes them.\<close>

definition combined_statistics :: "real list \<Rightarrow> statistics option" where
  "combined_statistics all_xtes =
     (case (np_mean all_xtes, np_mean (np_abs all_xtes), np_std all_xtes 0,
            np_max (np_abs all_xtes), np_percentile (np_abs all_xtes) 95) of
        (Some m, Some ma, Some sd, Some mx, Some p) \<Rightarrow>
          Some \<lparr>total_points = length all_xtes, mean_xte = m, mean_abs_xte = ma,
                std_dev = sd, max_abs_xte = mx, percentile95_abs_xte = p\<rparr>
      | _ \<Rightarrow> None)"

section \<open>Example log files\<close>

text \<open>A row of a log file: its fields joined by tabs, and the line terminator.\<close>

fun tsv :: "string list \<Rightarrow> string" where
  "tsv [] = [LF]"
| "tsv [f] = f @ [LF]"
| "tsv (f # g # fs) = f @ TAB # tsv (g # fs)"

definition log_header :: string where
  "log_header = tsv [''Time'', ''XTE'', ''Lat'', ''Lon'', ''Speed'']"

text \<open>One row, whose error field is \<open>inf\<close>.\<close>

definition log_inf :: string where
  "log_inf = log_header @ tsv [''2025-03-01 10:00:00'', ''inf'', ''44.5'', ''-93.25'', ''1.2'']"

text \<open>A good row, then a row whose latitude does not convert, then a good row.\<close>

definition bad_line :: string where
  "bad_line = tsv [''2025-03-01 10:00:01'', ''0.03'', ''north'', ''-93.25'']"

definition log_bad_field :: string where
  "log_bad_field =
     log_header @
     tsv [''2025-03-01 10:00:00'', ''0.02'', ''44.5'', ''-93.25''] @
     bad_line @
     tsv [''2025-03-01 10:00:02'', ''0.04'', ''44.5'', ''-93.25'']"

text \<open>Two good rows, a line of three fields between them, and a blank line.\<close>

definition log_two :: string where
  "log_two =
     log_header @
     tsv [''2025-03-01 10:00:00'', ''0.02'', ''44.5'', ''-93.25'', ''1.2''] @
     tsv [''2025-03-01 10:00:01'', ''0.03'', ''44.5''] @
     tsv [] @
     tsv [''2025-03-01 10:00:02'', ''-0.04'', ''44.5001'', ''-93.25'']"

text \<open>A single good row.\<close>

definition log_one :: string where
  "log_one = log_header @ tsv [''2025-03-01 10:00:00'', ''0.02'', ''44.5'', ''-93.25'']"

text \<open>
  A script directory with a one-row log, a two-row log and a file that is no log, and
  one without any log.
\<close>

definition example_dir :: directory where
  "example_dir =
     [(''NavigationLog_b.txt'', log_two), (''notes.txt'', log_header),
      (''NavigationLog_a.txt'', log_one)]"

definition empty_dir :: directory where
  "empty_dir = [(''notes.txt'', log_header), (''NavigationLog_1.csv'', log_one)]"

section \<open>The parser, line by line\<close>

lemma parse_loop_started:
  "parse_loop ls True acc = (case parse_rows ls of Inl e \<Rightarrow> Inl e | Inr ss \<Rightarrow> Inr (acc @ ss))"
proof (induction ls arbitrary: acc)
  case Nil
  show ?case by simp
next
  case (Cons l ls)
  show ?case
  proof (cases "is_row l")
    case False
    then show ?thesis using Cons.IH [of acc]
      by (auto simp: is_row_def Let_def)
  next
    case True
    then have r: "strip l \<noteq> []" "4 \<le> length (split l TAB)"
      by (simp_all add: is_row_def)
    show ?thesis
    proof (cases "row_sample l")
      case (Inl e)
      then show ?thesis using True r
        by (auto simp: row_sample_def Let_def split: sum.splits)
    next
      case (Inr s)
      then show ?thesis using True r Cons.IH [of "acc @ [s]"]
        by (auto simp: row_sample_def Let_def split: sum.splits)
    qed
  qed
qed

lemma parse_loop_skips_header:
  "parse_loop ls False acc = parse_loop (data_section ls) True acc"
proof (induction ls)
  case Nil
  show ?case by (simp add: data_section_def)
next
  case (Cons l ls)
  show ?case
  proof (cases "startswith l ''2025-''")
    case True
    then have "data_section (l # ls) = l # ls" by (simp add: data_section_def)
    then show ?thesis using True by simp
  next
    case False
    then have "data_section (l # ls) = data_section ls" by (simp add: data_section_def)
    then show ?thesis using False Cons.IH by simp
  qed
qed

lemma parse_navigation_log_rows:
  "parse_navigation_log content = parse_rows (data_section (readlines content))"
  by (simp add: parse_navigation_log_def parse_loop_skips_header parse_loop_started
      split: sum.splits)

lemma lc_parse_loop_eq: "lc_parse_loop ls b acc = parse_loop ls b acc"
  by (induction ls arbitrary: b acc) (simp_all add: Let_def split: sum.splits)

lemma lc_parse_navigation_log_rows:
  "lc_parse_navigation_log content = parse_rows (data_section (readlines content))"
  by (simp add: lc_parse_navigation_log_def lc_parse_loop_eq parse_loop_skips_header
      parse_loop_started split: sum.splits)

lemma parse_rows_Inr:
  "parse_rows ls = Inr ss \<Longrightarrow> map Inr ss = map row_sample (filter is_row ls)"
  by (induction ls arbitrary: ss) (auto split: sum.splits if_splits)

lemma parse_rows_Inl:
  "parse_rows ls = Inl e \<Longrightarrow> \<exists>l \<in> set ls. is_row l \<and> row_sample l = Inl e"
  by (induction ls) (auto split: sum.splits if_splits)

lemma parse_rows_raises:
  "l \<in> set ls \<Longrightarrow> is_row l \<Longrightarrow> row_sample l = Inl e \<Longrightarrow> \<exists>e'. parse_rows ls = Inl e'"
  by (induction ls) (auto split: sum.splits)

lemma parse_rows_all_convert:
  "list_all (\<lambda>l. is_row l \<longrightarrow> \<not> isl (row_sample l)) ls \<Longrightarrow>
   \<exists>ss. parse_rows ls = Inr ss \<and> length ss = length (filter is_row ls)"
  by (induction ls) (auto split: sum.splits)

lemma float_of_Inl: "float_of t = Inl e \<Longrightarrow> e = ValueError t \<and> py_float t = None"
  by (auto simp: float_of_def split: option.splits)

lemma float_of_Inr: "float_of t = Inr v \<Longrightarrow> py_float t = Some v"
  by (auto simp: float_of_def split: option.splits)

lemma row_sample_Inl:
  "row_sample l = Inl e \<Longrightarrow> \<exists>t. e = ValueError t \<and> py_float t = None"
  by (auto simp: row_sample_def split: sum.splits dest: float_of_Inl)

lemma row_sample_xte: "row_sample l = Inr s \<Longrightarrow> py_float (split l TAB ! 1) = Some (xte s)"
  by (auto simp: row_sample_def split: sum.splits dest: float_of_Inr)

lemma row_sample_converts:
  "isl (row_sample l) \<longleftrightarrow>
   py_float (split l TAB ! 1) = None \<or> py_float (split l TAB ! 2) = None \<or>
   py_float (split l TAB ! 3) = None"
  by (auto simp: row_sample_def float_of_def split: sum.splits option.splits)

text \<open>
  Claim C1, as the code has it. The parser never tests a value for finiteness. The
  error value of every sample is what \<open>float\<close> returns for field 1 of its row, in
  either tool: where that field reads \<open>inf\<close>, \<open>-inf\<close> or \<open>nan\<close>, the row is not
  skipped and its sample carries the non-finite value.
\<close>

theorem xte_is_float_of_error_field:
  assumes "parse_navigation_log content = Inr samples \<or>
           lc_parse_navigation_log content = Inr samples"
  shows "map (\<lambda>s. Some (xte s)) samples =
         map (\<lambda>l. py_float (split l TAB ! 1)) (filter is_row (data_section (readlines content)))"
proof -
  let ?rows = "filter is_row (data_section (readlines content))"
  from assms have "parse_rows (data_section (readlines content)) = Inr samples"
    by (auto simp: parse_navigation_log_rows lc_parse_navigation_log_rows)
  then have m: "map Inr samples = map row_sample ?rows"
    by (rule parse_rows_Inr)
  then have len: "length samples = length ?rows"
    by (metis length_map)
  show ?thesis
  proof (rule nth_equalityI)
    show "length (map (\<lambda>s. Some (xte s)) samples) =
          length (map (\<lambda>l. py_float (split l TAB ! 1)) ?rows)"
      using len by simp
  next
    fix i
    assume "i < length (map (\<lambda>s. Some (xte s)) samples)"
    then have i: "i < length samples" "i < length ?rows"
      using len by simp_all
    from m have "map Inr samples ! i = map row_sample ?rows ! i" by simp
    with i have "row_sample (?rows ! i) = Inr (samples ! i)" by simp
    then have "py_float (split (?rows ! i) TAB ! 1) = Some (xte (samples ! i))"
      by (rule row_sample_xte)
    with i show "map (\<lambda>s. Some (xte s)) samples ! i =
                 map (\<lambda>l. py_float (split l TAB ! 1)) ?rows ! i"
      by simp
  qed
qed

text \<open>The file \<open>log_inf\<close> parses, and the value of its only row is positive infinity.\<close>

theorem xte_is_float_of_error_field_witness:
  "parse_navigation_log log_inf =
     Inr [\<lparr>xte = PInf, lat = Finite (89 / 2), lon = Finite (- (373 / 4))\<rparr>] \<and>
   map (\<lambda>l. py_float (split l TAB ! 1)) (filter is_row (data_section (readlines log_inf))) =
     [Some PInf]"
proof -
  have h: "parse_navigation_log log_inf =
           Inr [\<lparr>xte = PInf, lat = Finite (89 / 2), lon = Finite (- (373 / 4))\<rparr>]"
    by code_simp
  from xte_is_float_of_error_field [OF disjI1 [OF h]] h show ?thesis
    by simp
qed

text \<open>
  Against claim C1 as it is stated: the one row of \<open>log_inf\<close> has the error field
  \<open>inf\<close>, and both parsers return a sample for it whose error value is not finite.
\<close>

theorem nonfinite_xte_counterexample:
  "parse_navigation_log log_inf =
     Inr [\<lparr>xte = PInf, lat = Finite (89 / 2), lon = Finite (- (373 / 4))\<rparr>] \<and>
   lc_parse_navigation_log log_inf =
     Inr [\<lparr>xte = PInf, lat = Finite (89 / 2), lon = Finite (- (373 / 4))\<rparr>] \<and>
   \<not> isfinite PInf"
  by code_simp

text \<open>
  Claim C2. If the data section holds a line that is not blank, has at least four
  tab-separated fields, and one of its fields 1, 2, 3 does not convert, then
  \<open>parse_navigation_log\<close> raises \<open>ValueError\<close> for a text that \<open>float\<close> rejects: it returns
  no list, so no sample of that line or of any later line.
\<close>

theorem unparsable_field_raises:
  assumes "l \<in> set (data_section (readlines content))"
    and "strip l \<noteq> []"
    and "4 \<le> length (split l TAB)"
    and "py_float (split l TAB ! 1) = None \<or> py_float (split l TAB ! 2) = None \<or>
         py_float (split l TAB ! 3) = None"
  shows "\<exists>t. parse_navigation_log content = Inl (ValueError t) \<and> py_float t = None"
proof -
  from assms(2,3) have row: "is_row l" by (simp add: is_row_def)
  from assms(4) have "isl (row_sample l)" by (simp add: row_sample_converts)
  then obtain e where "row_sample l = Inl e" by (cases "row_sample l") auto
  with assms(1) row obtain e' where e': "parse_rows (data_section (readlines content)) = Inl e'"
    using parse_rows_raises by blast
  then obtain l' where "row_sample l' = Inl e'"
    using parse_rows_Inl by blast
  then obtain t where "e' = ValueError t" "py_float t = None"
    using row_sample_Inl by blast
  with e' show ?thesis by (auto simp: parse_navigation_log_rows)
qed

text \<open>
  In \<open>log_bad_field\<close> the second row has the latitude \<open>north\<close>, and the parser raises.
\<close>

theorem unparsable_field_raises_witness:
  "bad_line \<in> set (data_section (readlines log_bad_field)) \<and>
   strip bad_line \<noteq> [] \<and>
   4 \<le> length (split bad_line TAB) \<and>
   py_float (split bad_line TAB ! 2) = None \<and>
   (\<exists>t. parse_navigation_log log_bad_field = Inl (ValueError t) \<and> py_float t = None)"
proof -
  have h1: "bad_line \<in> set (data_section (readlines log_bad_field))" by code_simp
  have h2: "strip bad_line \<noteq> []" by code_simp
  have h3: "4 \<le> length (split bad_line TAB)" by code_simp
  have h4: "py_float (split bad_line TAB ! 2) = None" by code_simp
  from h4 have h4': "py_float (split bad_line TAB ! 1) = None \<or>
      py_float (split bad_line TAB ! 2) = None \<or> py_float (split bad_line TAB ! 3) = None"
    by simp
  from unparsable_field_raises [OF h1 h2 h3 h4'] h1 h2 h3 h4 show ?thesis
    by blast
qed

text \<open>
  Claim C3. On a well-formed file \<open>parse_navigation_log\<close> returns a list, as long as
  the number of lines of the data section that are not blank and have at least four
  tab-separated fields; shorter lines add nothing.
\<close>

theorem well_formed_sample_count:
  assumes "well_formed content"
  shows "\<exists>samples. parse_navigation_log content = Inr samples \<and>
           length samples =
           length (filter (\<lambda>l. strip l \<noteq> [] \<and> 4 \<le> length (split l TAB))
                     (data_section (readlines content)))"
proof -
  from assms have "list_all (\<lambda>l. is_row l \<longrightarrow> \<not> isl (row_sample l))
                     (data_section (readlines content))"
    by (auto simp: well_formed_def list_all_iff is_row_def row_sample_converts)
  from parse_rows_all_convert [OF this] show ?thesis
    by (simp add: parse_navigation_log_rows is_row_def [abs_def])
qed

text \<open>
  \<open>log_two\<close> is well-formed; of the four lines of its data section two are rows, one
  has three fields and one is blank.
\<close>

theorem well_formed_sample_count_witness:
  "well_formed log_two \<and>
   length (filter (\<lambda>l. strip l \<noteq> [] \<and> 4 \<le> length (split l TAB))
             (data_section (readlines log_two))) = 2 \<and>
   (\<exists>samples. parse_navigation_log log_two = Inr samples \<and> length samples = 2)"
proof -
  have h: "well_formed log_two" by code_simp
  have n: "length (filter (\<lambda>l. strip l \<noteq> [] \<and> 4 \<le> length (split l TAB))
             (data_section (readlines log_two))) = 2" by code_simp
  from well_formed_sample_count [OF h] n h show ?thesis
    by simp
qed

text \<open>
  Claim C4, as the code has it. Both parsers drop every line before the first line that
  begins with \<open>2025-\<close>, and take the rows from that line on: the date-prefixed line is
  itself parsed, as the first row when it is one.
\<close>

theorem data_rows_from_marker_line:
  "parse_navigation_log content = parse_rows (data_section (readlines content)) \<and>
   lc_parse_navigation_log content = parse_rows (data_section (readlines content))"
  by (simp add: parse_navigation_log_rows lc_parse_navigation_log_rows)

text \<open>
  Against claim C4 as it is stated: \<open>log_one\<close> has a single line that begins with
  \<open>2025-\<close>; the parser returns the sample of that line, and the lines after it hold no
  row.
\<close>

theorem marker_line_parsed_counterexample:
  "parse_navigation_log log_one =
     Inr [\<lparr>xte = Finite (1 / 50), lat = Finite (89 / 2), lon = Finite (- (373 / 4))\<rparr>] \<and>
   parse_rows (tl (data_section (readlines log_one))) = Inr [] \<and>
   length (filter (\<lambda>l. startswith l ''2025-'') (readlines log_one)) = 1"
  by code_simp

text \<open>
  Claim C10. The two functions \<open>parse_navigation_log\<close> return the same for every file
  text: the same samples in the same order, or the same error.
\<close>

theorem parsers_agree:
  "lc_parse_navigation_log content = parse_navigation_log content"
  by (simp add: lc_parse_navigation_log_def parse_navigation_log_def lc_parse_loop_eq)

section \<open>The loop over the log files\<close>

lemma lc_parse_navigation_log_eq:
  "lc_parse_navigation_log content = parse_navigation_log content"
  by (simp add: parse_navigation_log_rows lc_parse_navigation_log_rows)

lemma load_runs_all_parse:
  "list_all (\<lambda>f. \<not> isl (parse_navigation_log (snd f))) fs \<Longrightarrow>
   load_runs fs tr runs =
     (tr @ concat (map progress fs), Inr (runs @ map run_of (filter usable fs)))"
proof (induction fs arbitrary: tr runs)
  case Nil
  show ?case by simp
next
  case (Cons f fs)
  from Cons.prems obtain d where d: "parse_navigation_log (snd f) = Inr d"
    by (cases "parse_navigation_log (snd f)") auto
  from Cons.prems have rest: "list_all (\<lambda>f. \<not> isl (parse_navigation_log (snd f))) fs"
    by simp
  show ?case
  proof (cases "length d < 2")
    case True
    with d have "\<not> usable f" by (simp add: usable_def parsed_def)
    with True d show ?thesis
      using Cons.IH [OF rest, of "tr @ [Print (''Loading: '' @ fst f),
          Print (''  Insufficient data in '' @ fst f)]" runs]
      by (simp add: progress_def)
  next
    case False
    with d have "usable f" by (simp add: usable_def parsed_def)
    with False d show ?thesis
      using Cons.IH [OF rest, of "tr @ [Print (''Loading: '' @ fst f)]"
          "runs @ [\<lparr>name = stem (fst f), data = d\<rparr>]"]
      by (simp add: progress_def run_of_def parsed_def)
  qed
qed

lemma lc_load_runs_eq: "lc_load_runs fs tr runs = load_runs fs tr runs"
  by (induction fs arbitrary: tr runs)
    (simp_all add: lc_parse_navigation_log_eq Let_def split: sum.splits)

lemma load_runs_raises:
  "f \<in> set fs \<Longrightarrow> parse_navigation_log (snd f) = Inl e \<Longrightarrow>
   \<exists>tr' e'. load_runs fs tr runs = (tr', Inl e')"
  by (induction fs arbitrary: tr runs) (auto simp: Let_def split: sum.splits)

text \<open>
  Claim C5. In both tools, when every log file parses, the loop keeps the run of a file
  exactly when the file has two samples or more, in the order of the files; for every
  other file it prints the line \<open>Insufficient data\<close> after the line \<open>Loading\<close> and goes
  on with the next file.
\<close>

theorem short_runs_excluded:
  assumes "list_all (\<lambda>f. \<not> isl (parse_navigation_log (snd f))) log_files"
  shows "load_runs log_files tr runs =
           (tr @ concat (map progress log_files),
            Inr (runs @ map run_of (filter usable log_files))) \<and>
         lc_load_runs log_files tr runs =
           (tr @ concat (map progress log_files),
            Inr (runs @ map run_of (filter usable log_files)))"
  using assms by (simp add: lc_load_runs_eq load_runs_all_parse)

text \<open>
  Of the two logs of \<open>example_dir\<close>, the one with a single sample is reported and left
  out, the one with two samples is kept.
\<close>

theorem short_runs_excluded_witness:
  "list_all (\<lambda>f. \<not> isl (parse_navigation_log (snd f))) (sorted_paths (glob example_dir)) \<and>
   length (parsed log_one) = 1 \<and> length (parsed log_two) = 2 \<and>
   load_runs (sorted_paths (glob example_dir)) [] [] =
     ([Print ''Loading: NavigationLog_a.txt'',
       Print ''  Insufficient data in NavigationLog_a.txt'',
       Print ''Loading: NavigationLog_b.txt''],
      Inr [\<lparr>name = ''NavigationLog_b'', data = parsed log_two\<rparr>])"
proof -
  have h: "list_all (\<lambda>f. \<not> isl (parse_navigation_log (snd f)))
             (sorted_paths (glob example_dir))"
    by code_simp
  have n: "length (parsed log_one) = 1" "length (parsed log_two) = 2"
    by code_simp+
  have fs: "sorted_paths (glob example_dir) =
            [(''NavigationLog_a.txt'', log_one), (''NavigationLog_b.txt'', log_two)]"
    by code_simp
  have st: "stem ''NavigationLog_b.txt'' = ''NavigationLog_b''"
    by code_simp
  from short_runs_excluded [OF h, of "[]" "[]"]
  have "load_runs (sorted_paths (glob example_dir)) [] [] =
          (concat (map progress (sorted_paths (glob example_dir))),
           Inr (map run_of (filter usable (sorted_paths (glob example_dir)))))"
    by simp
  then show ?thesis using h n
    by (simp add: fs st progress_def usable_def run_of_def)
qed

section \<open>No log file\<close>

text \<open>
  Claim C9. When no file of the directory matches \<open>NavigationLog_*.txt\<close>, each tool
  makes its output directory, prints \<open>No navigation log files found!\<close> and returns
  without an exception; it draws and saves nothing.
\<close>

theorem no_log_files:
  assumes "glob base_dir = []"
  shows "hist_main base_dir =
           ([Mkdir ''histogram_analysis'', Print ''No navigation log files found!''], None) \<and>
         lc_main base_dir old_plot =
           ([Mkdir ''line_plots'', Print ''No navigation log files found!''], None)"
  using assms by (simp add: hist_main_def lc_main_def sorted_paths_def)

theorem no_log_files_witness:
  "glob empty_dir = [] \<and>
   hist_main empty_dir =
     ([Mkdir ''histogram_analysis'', Print ''No navigation log files found!''], None) \<and>
   lc_main empty_dir True =
     ([Mkdir ''line_plots'', Print ''No navigation log files found!''], None)"
proof -
  have h: "glob empty_dir = []" by code_simp
  from no_log_files [OF h, of True] h show ?thesis by simp
qed

section \<open>The statistics\<close>

lemma np_std_sample_formula: "np_std [- 1, 1] 1 = Some (sqrt 2)"
  by (simp add: np_std_def np_mean_def)






section \<open>The order of the values\<close>

text \<open>
  In exact arithmetic the statistics depend on the values only, not on their order: two
  lists with the same elements, each as often in the one as in the other, have the same
  statistics. The binary64 sums that numpy computes are outside this statement, and it
  does not carry over to them: a floating-point sum is rounded after every addition, and
  the rounded result can change with the order of the summands.
\<close>

lemma sort_mset_eq: "mset xs = mset ys \<Longrightarrow> sort xs = sort (ys :: real list)"
  by (rule properties_for_sort) simp_all

lemma sum_list_mset_eq: "mset xs = mset ys \<Longrightarrow> sum_list xs = sum_list (ys :: real list)"
  by (metis sum_mset_sum_list)

lemma np_max_mset_eq:
  assumes "mset xs = mset ys"
  shows "np_max xs = np_max ys"
proof (cases xs)
  case Nil
  with assms show ?thesis by simp
next
  case (Cons x r)
  with assms obtain y s where ys: "ys = y # s" by (cases ys) auto
  from assms have "set xs = set ys" by (rule mset_eq_setD)
  then have "Max (set (x # r)) = Max (set (y # s))" using Cons ys by simp
  then have "fold max r x = fold max s y" by (simp only: Max.set_eq_fold)
  then show ?thesis using Cons ys by (simp add: np_max_def)
qed

lemma mset_map_cong: "mset xs = mset ys \<Longrightarrow> mset (map f xs) = mset (map f ys)"
  by (metis mset_map)

lemma np_mean_mset_eq:
  assumes "mset xs = mset ys"
  shows "np_mean xs = np_mean ys"
proof -
  have "length xs = length ys" using assms by (rule mset_eq_length)
  moreover have "sum_list xs = sum_list ys" using assms by (rule sum_list_mset_eq)
  moreover have "xs = [] \<longleftrightarrow> ys = []" using \<open>length xs = length ys\<close> by auto
  ultimately show ?thesis unfolding np_mean_def by presburger
qed

lemma np_std_mset_eq:
  assumes "mset xs = mset ys"
  shows "np_std xs d = np_std ys d"
proof -
  have len: "length xs = length ys" using assms by (rule mset_eq_length)
  have mean: "np_mean xs = np_mean ys" using assms by (rule np_mean_mset_eq)
  have "sum_list (map (\<lambda>x. \<bar>x - m\<bar> ^ 2) xs) = sum_list (map (\<lambda>x. \<bar>x - m\<bar> ^ 2) ys)" for m
    by (rule sum_list_mset_eq) (rule mset_map_cong [OF assms])
  then show ?thesis unfolding np_std_def mean len by presburger
qed

lemma np_percentile_mset_eq:
  assumes "mset xs = mset ys"
  shows "np_percentile xs q = np_percentile ys q"
proof -
  have len: "length xs = length ys" using assms by (rule mset_eq_length)
  then have emp: "xs = [] \<longleftrightarrow> ys = []" by auto
  show ?thesis unfolding np_percentile_def sort_mset_eq [OF assms] len emp ..
qed

lemma exact_statistics_permutation:
  assumes "mset xs = mset ys"
  shows "combined_statistics xs = combined_statistics ys"
proof -
  have len: "length xs = length ys" using assms by (rule mset_eq_length)
  have ab: "mset (np_abs xs) = mset (np_abs ys)"
    unfolding np_abs_def by (rule mset_map_cong [OF assms])
  show ?thesis
    unfolding combined_statistics_def len
      np_mean_mset_eq [OF assms] np_mean_mset_eq [OF ab] np_std_mset_eq [OF assms]
      np_max_mset_eq [OF ab] np_percentile_mset_eq [OF ab] ..
qed

end
